theory Spec2Isabelle
  imports Main "HOL-Library.AList"
begin

section \<open>The static options object (FORM_CONFIG)\<close>

definition workerUrl :: string where
  "workerUrl = ''https://spam-detection-engine.hello-be0.workers.dev/''"

definition hideClass :: string where
  "hideClass = ''hide''"

definition turnstileContainerClass :: string where
  "turnstileContainerClass = ''cf-turnstile-container''"

definition loadingText :: string where
  "loadingText = ''Sending...''"

definition enableHoneypot :: bool where
  "enableHoneypot = True"

definition honeypotFieldNames :: "string list" where
  "honeypotFieldNames =
     [''honeypot_website'', ''honeypot_url'', ''honeypot_company_site'',
      ''honeypot_business_url'', ''bot_trap_website'', ''bot_trap_url'',
      ''spam_trap_site'', ''spam_trap_link'']"

definition pageUrlField_enabled :: bool where
  "pageUrlField_enabled = True"

definition pageUrlField_fieldName :: string where
  "pageUrlField_fieldName = ''Page URL''"

section \<open>Data model\<close>

text \<open>
  A DOM element, with the properties and attributes the handler reads or writes.
  \<open>el_name\<close> is the \<open>name\<close> attribute (which the \<open>name\<close> property of a form control
  reflects; empty when absent), \<open>el_type\<close> the \<open>type\<close> property as the browser reports
  it, \<open>attrs\<close> the remaining attributes (\<open>cf-*\<close>, \<open>data-*\<close>, ...), \<open>style\<close> the inline
  style properties that were assigned.
\<close>

record element =
  tag :: string
  el_name :: string
  el_type :: string
  el_value :: string
  checked :: bool
  disabled :: bool
  attrs :: "(string \<times> string) list"
  classList :: "string list"
  innerHTML :: string
  textContent :: string
  style :: "(string \<times> string) list"

type_synonym node = nat

type_synonym cref = nat

text \<open>
  The per-form \<open>config\<close> object of \<open>setupSingleForm\<close>. DOM references are node
  addresses (\<open>None\<close> for \<open>null\<close>); \<open>turnstileWidgetId\<close> and \<open>originalButtonText\<close> are
  \<open>None\<close> while the property is still undefined.
\<close>

record config =
  formId :: "string option"
  formPurpose :: "string option"
  siteKey :: "string option"
  formElement :: node
  submitButton :: "node option"
  submitLabel :: "node option"
  errorElement :: "node option"
  errorText :: "node option"
  successElement :: "node option"
  turnstileToken :: "string option"
  turnstileWidgetId :: "nat option"
  originalButtonText :: "string option"

text \<open>Values of the JSON payload.\<close>

datatype jsval =
    JNull
  | JBool bool
  | JNum int
  | JStr string
  | JObj "(string \<times> jsval) list"

text \<open>Exceptions that the handler's own calls can raise.\<close>

datatype js_error = TypeError

record request =
  req_url :: string
  req_method :: string
  req_body :: jsval

text \<open>Calls made on the challenge provider (\<open>window.turnstile\<close>), which is opaque.\<close>

datatype provider_call =
    Render node "string option" cref
  | Reset "nat option"

text \<open>The two submit listeners that \<open>setupFormSubmission\<close> attaches.\<close>

datatype listener = SubmitMain cref | SubmitBackstop

record listener_entry =
  l_target :: node
  l_capture :: bool
  l_fn :: listener

text \<open>
  The page: the DOM store, the document in tree order (\<open>body\<close> lists the elements
  outside forms and the form elements themselves, \<open>kids f\<close> the descendants of form
  \<open>f\<close>; forms do not nest), the script elements appended to the head (each with the
  registration its \<open>onload\<close> closure captured), \<open>window.turnstile\<close>, the store of
  \<open>config\<close> objects with the \<open>this.forms\<close> array, and what the handler did to its
  environment: alerts, network requests, provider calls, timers.
\<close>

record world =
  heap :: "node \<Rightarrow> element"
  next_node :: node
  body :: "node list"
  kids :: "node \<Rightarrow> node list"
  head_scripts :: "cref list"
  turnstile :: bool
  cfgs :: "cref \<Rightarrow> config"
  forms :: "cref list"
  listeners :: "listener_entry list"
  alerts :: "string list"
  requests :: "request list"
  provider_calls :: "provider_call list"
  next_widget :: nat
  timers :: "cref list"
  location_href :: string
  date_now :: int
  loadEventEnd :: int
  userAgent :: string
  referrer :: string
  timeZone :: string

definition upd_el :: "node \<Rightarrow> (element \<Rightarrow> element) \<Rightarrow> world \<Rightarrow> world" where
  "upd_el n f w = w\<lparr>heap := (heap w)(n := f (heap w n))\<rparr>"

definition upd_cfg :: "cref \<Rightarrow> (config \<Rightarrow> config) \<Rightarrow> world \<Rightarrow> world" where
  "upd_cfg c f w = w\<lparr>cfgs := (cfgs w)(c := f (cfgs w c))\<rparr>"

definition set_style :: "string \<Rightarrow> string \<Rightarrow> element \<Rightarrow> element" where
  "set_style k v e = e\<lparr>style := AList.update k v (style e)\<rparr>"

definition classList_add :: "string \<Rightarrow> element \<Rightarrow> element" where
  "classList_add c e = (if c \<in> set (classList e) then e else e\<lparr>classList := classList e @ [c]\<rparr>)"

definition classList_remove :: "string \<Rightarrow> element \<Rightarrow> element" where
  "classList_remove c e = e\<lparr>classList := removeAll c (classList e)\<rparr>"

text \<open>JavaScript truthiness of a nullable string: \<open>null\<close>, \<open>undefined\<close> and \<open>""\<close> are falsy.\<close>

fun truthy :: "string option \<Rightarrow> bool" where
  "truthy None = False"
| "truthy (Some s) = (s \<noteq> [])"

section \<open>UIStatePresenter\<close>

definition enableSubmitButton :: "cref \<Rightarrow> world \<Rightarrow> world" where
  "enableSubmitButton c w =
     (case submitButton (cfgs w c) of
        None \<Rightarrow> w
      | Some b \<Rightarrow> upd_el b (\<lambda>e. set_style ''opacity'' ''1'' (e\<lparr>disabled := False\<rparr>)) w)"

definition disableSubmitButton :: "cref \<Rightarrow> world \<Rightarrow> world" where
  "disableSubmitButton c w =
     (case submitButton (cfgs w c) of
        None \<Rightarrow> w
      | Some b \<Rightarrow> upd_el b (\<lambda>e. set_style ''opacity'' ''0.6'' (e\<lparr>disabled := True\<rparr>)) w)"

definition setSubmitButtonLoading :: "cref \<Rightarrow> bool \<Rightarrow> world \<Rightarrow> world" where
  "setSubmitButtonLoading c loading w =
     (case submitButton (cfgs w c) of
        None \<Rightarrow> w
      | Some b \<Rightarrow>
          if loading then
            (let w1 = upd_el b (\<lambda>e. e\<lparr>disabled := True\<rparr>) w in
             case submitLabel (cfgs w1 c) of
               None \<Rightarrow> w1
             | Some l \<Rightarrow>
                 (let w2 = upd_cfg c (\<lambda>k. k\<lparr>originalButtonText := Some (innerHTML (heap w1 l))\<rparr>) w1
                  in upd_el l (\<lambda>e. e\<lparr>innerHTML := loadingText\<rparr>) w2))
          else
            (let w1 = upd_el b (\<lambda>e. e\<lparr>disabled := False\<rparr>) w in
             case submitLabel (cfgs w1 c) of
               None \<Rightarrow> w1
             | Some l \<Rightarrow>
                 (case originalButtonText (cfgs w1 c) of
                    None \<Rightarrow> w1
                  | Some t \<Rightarrow>
                      if t \<noteq> [] then upd_el l (\<lambda>e. e\<lparr>innerHTML := t\<rparr>) w1 else w1)))"

definition showError :: "cref \<Rightarrow> string \<Rightarrow> world \<Rightarrow> world" where
  "showError c message w =
     (case errorElement (cfgs w c) of
        None \<Rightarrow> w\<lparr>alerts := alerts w @ [message]\<rparr>
      | Some e \<Rightarrow>
          (case errorText (cfgs w c) of
             None \<Rightarrow> w\<lparr>alerts := alerts w @ [message]\<rparr>
           | Some t \<Rightarrow>
               upd_el e (classList_remove hideClass)
                 (upd_el t (\<lambda>x. x\<lparr>textContent := message\<rparr>) w)))"

definition hideError :: "cref \<Rightarrow> world \<Rightarrow> world" where
  "hideError c w =
     (case errorElement (cfgs w c) of
        None \<Rightarrow> w
      | Some e \<Rightarrow> upd_el e (classList_add hideClass) w)"

definition handleSuccess :: "cref \<Rightarrow> world \<Rightarrow> world" where
  "handleSuccess c w =
     (let w1 = upd_el (formElement (cfgs w c)) (set_style ''display'' ''none'') w;
          w2 = (case successElement (cfgs w1 c) of
                  None \<Rightarrow> w1
                | Some s \<Rightarrow> upd_el s (set_style ''display'' ''block'') w1);
          w3 = (if turnstile w2
                then w2\<lparr>provider_calls := provider_calls w2 @ [Reset None]\<rparr>
                else w2)
      in upd_cfg c (\<lambda>k. k\<lparr>turnstileToken := None\<rparr>) w3)"

section \<open>DOM queries\<close>

definition getAttribute :: "string \<Rightarrow> element \<Rightarrow> string option" where
  "getAttribute a e = map_of (attrs e) a"

definition setAttribute :: "string \<Rightarrow> string \<Rightarrow> element \<Rightarrow> element" where
  "setAttribute a v e = e\<lparr>attrs := AList.update a v (attrs e)\<rparr>"

definition has_attr :: "string \<Rightarrow> element \<Rightarrow> bool" where
  "has_attr a e = (getAttribute a e \<noteq> None)"

definition attr_is :: "string \<Rightarrow> string \<Rightarrow> element \<Rightarrow> bool" where
  "attr_is a v e = (getAttribute a e = Some v)"

text \<open>The selectors of the source, as predicates on elements.\<close>

definition formSelector :: "element \<Rightarrow> bool" where
  "formSelector e = (tag e = ''form'' \<and> has_attr ''cf-form'' e)"

definition submitButtonSelector :: "element \<Rightarrow> bool" where
  "submitButtonSelector = attr_is ''cf-form-submit'' ''trigger''"

definition submitLabelSelector :: "element \<Rightarrow> bool" where
  "submitLabelSelector = attr_is ''cf-form-submit'' ''button-label''"

definition errorElementSelector :: "element \<Rightarrow> bool" where
  "errorElementSelector = attr_is ''cf-form-submit'' ''error''"

definition errorTextSelector :: "element \<Rightarrow> bool" where
  "errorTextSelector = attr_is ''cf-form-submit'' ''error-text''"

definition successElementSelector :: "element \<Rightarrow> bool" where
  "successElementSelector = attr_is ''cf-form-submit'' ''success''"

definition fieldTypeSelector :: "element \<Rightarrow> bool" where
  "fieldTypeSelector = has_attr ''cf-field-type''"

definition honeypotSelector :: "element \<Rightarrow> bool" where
  "honeypotSelector e = (tag e = ''input'' \<and> attr_is ''data-honeypot'' ''true'' e)"

definition pageUrlSelector :: "element \<Rightarrow> bool" where
  "pageUrlSelector e = (tag e = ''input'' \<and> el_name e = pageUrlField_fieldName)"

definition containerSelector :: "element \<Rightarrow> bool" where
  "containerSelector e = (turnstileContainerClass \<in> set (classList e))"

definition controlSelector :: "element \<Rightarrow> bool" where
  "controlSelector e = (tag e = ''input'' \<or> tag e = ''textarea'' \<or> tag e = ''select'')"

text \<open>\<open>element.querySelectorAll\<close> and \<open>element.querySelector\<close> on a form: its descendants in tree order.\<close>

definition querySelectorAll :: "world \<Rightarrow> node \<Rightarrow> (element \<Rightarrow> bool) \<Rightarrow> node list" where
  "querySelectorAll w f sel = filter (\<lambda>n. sel (heap w n)) (kids w f)"

definition querySelector :: "world \<Rightarrow> node \<Rightarrow> (element \<Rightarrow> bool) \<Rightarrow> node option" where
  "querySelector w f sel = List.find (\<lambda>n. sel (heap w n)) (kids w f)"

text \<open>The same on \<open>document\<close>: every element of the page in tree order.\<close>

definition document_order :: "world \<Rightarrow> node list" where
  "document_order w = concat (map (\<lambda>n. n # kids w n) (body w))"

definition document_querySelectorAll :: "world \<Rightarrow> (element \<Rightarrow> bool) \<Rightarrow> node list" where
  "document_querySelectorAll w sel = filter (\<lambda>n. sel (heap w n)) (document_order w)"

definition document_querySelector :: "world \<Rightarrow> (element \<Rightarrow> bool) \<Rightarrow> node option" where
  "document_querySelector w sel = List.find (\<lambda>n. sel (heap w n)) (document_order w)"

text \<open>
  A form element resolves a property name to one of its controls before anything
  else: a listed element (or an image) of the form whose \<open>name\<close> or \<open>id\<close> is that
  name hides the form's own property of the same name, methods included.
\<close>

definition listed_element :: "element \<Rightarrow> bool" where
  "listed_element e =
     (tag e \<in> set [''button'', ''fieldset'', ''object'', ''output'', ''select'', ''textarea'', ''img'']
      \<or> (tag e = ''input'' \<and> el_type e \<noteq> ''image''))"

definition form_has_named :: "world \<Rightarrow> node \<Rightarrow> string \<Rightarrow> bool" where
  "form_has_named w f nm =
     list_ex (\<lambda>n. listed_element (heap w n)
                  \<and> (el_name (heap w n) = nm \<or> getAttribute ''id'' (heap w n) = Some nm))
       (kids w f)"

text \<open>\<open>document.createElement\<close>: a fresh node; an \<open>input\<close> starts as a text control.\<close>

definition blank_element :: "string \<Rightarrow> element" where
  "blank_element t =
     \<lparr>tag = t, el_name = [], el_type = (if t = ''input'' then ''text'' else []),
      el_value = [], checked = False, disabled = False, attrs = [], classList = [],
      innerHTML = [], textContent = [], style = []\<rparr>"

definition createElement :: "element \<Rightarrow> world \<Rightarrow> node \<times> world" where
  "createElement e w =
     (next_node w, w\<lparr>heap := (heap w)(next_node w := e), next_node := Suc (next_node w)\<rparr>)"

text \<open>\<open>form.insertBefore(x, form.firstChild)\<close>: \<open>x\<close> becomes the first descendant.\<close>

definition insert_first :: "node \<Rightarrow> node \<Rightarrow> world \<Rightarrow> world" where
  "insert_first f x w = w\<lparr>kids := (kids w)(f := x # kids w f)\<rparr>"

text \<open>\<open>form.appendChild(x)\<close>: \<open>x\<close> becomes the last descendant.\<close>

definition append_child :: "node \<Rightarrow> node \<Rightarrow> world \<Rightarrow> world" where
  "append_child f x w = w\<lparr>kids := (kids w)(f := kids w f @ [x])\<rparr>"

text \<open>
  \<open>b.parentNode.insertBefore(x, b)\<close> for a descendant \<open>b\<close> of the form: \<open>x\<close> comes
  right before \<open>b\<close> in tree order. (A \<open>b\<close> that is no descendant cannot occur: \<open>b\<close> was
  found by a query on the form and nothing is ever removed.)
\<close>

fun insert_before_in :: "node \<Rightarrow> node \<Rightarrow> node list \<Rightarrow> node list" where
  "insert_before_in x b [] = [x]"
| "insert_before_in x b (y # ys) =
     (if y = b then x # y # ys else y # insert_before_in x b ys)"

definition insert_before :: "node \<Rightarrow> node \<Rightarrow> node \<Rightarrow> world \<Rightarrow> world" where
  "insert_before f x b w = w\<lparr>kids := (kids w)(f := insert_before_in x b (kids w f))\<rparr>"

section \<open>FormDataCollector\<close>

type_synonym jsobj = "(string \<times> jsval) list"

text \<open>
  Assigning a string or a boolean to \<open>obj[key]\<close> on a plain object: an existing key
  keeps its place, a new key goes last. The key \<open>__proto__\<close> is the one exception: it
  reaches the prototype setter, which ignores such a value, so nothing is stored.
\<close>

definition js_assign :: "string \<Rightarrow> jsval \<Rightarrow> jsobj \<Rightarrow> jsobj" where
  "js_assign k v obj = (if k = ''__proto__'' then obj else AList.update k v obj)"

text \<open>The body of the \<open>forEach\<close> in \<open>collectFormData\<close>, on the three objects it fills.\<close>

definition collect_input :: "element \<Rightarrow> jsobj \<times> jsobj \<times> jsobj \<Rightarrow> jsobj \<times> jsobj \<times> jsobj" where
  "collect_input input acc =
     (case acc of (formData, fieldTypes, fieldDataDescriptions) \<Rightarrow>
        if el_name input \<noteq> [] \<and> el_type input \<noteq> ''submit'' then
          (let formData' =
                 (if el_type input = ''checkbox''
                  then js_assign (el_name input) (JBool (checked input)) formData
                  else if el_type input = ''radio''
                  then (if checked input
                        then js_assign (el_name input) (JStr (el_value input)) formData
                        else formData)
                  else js_assign (el_name input) (JStr (el_value input)) formData);
               fieldType = getAttribute ''cf-field-type'' input;
               fieldData = getAttribute ''cf-field-data'' input;
               fieldTypes' =
                 (case fieldType of
                    None \<Rightarrow> fieldTypes
                  | Some t \<Rightarrow>
                      if t \<noteq> [] then js_assign (el_name input) (JStr t) fieldTypes
                      else fieldTypes);
               fieldDataDescriptions' =
                 (case fieldData of
                    None \<Rightarrow> fieldDataDescriptions
                  | Some d \<Rightarrow>
                      if d \<noteq> []
                      then js_assign (el_name input) (JStr d) fieldDataDescriptions
                      else fieldDataDescriptions)
           in (formData', fieldTypes', fieldDataDescriptions'))
        else acc)"

definition collect_inputs :: "element list \<Rightarrow> jsobj \<times> jsobj \<times> jsobj" where
  "collect_inputs inputs = fold collect_input inputs ([], [], [])"

text \<open>
  \<open>collectFormData\<close>. Its two queries are method calls on the form element: when a
  control of the form is named \<open>querySelectorAll\<close> (or \<open>querySelector\<close>), the name
  resolves to that control and the call raises a TypeError. The keys assigned after
  the loop are fixed names, stored as on any object.
\<close>

definition collectFormData :: "cref \<Rightarrow> world \<Rightarrow> js_error + jsobj" where
  "collectFormData c w =
     (let f = formElement (cfgs w c) in
      if form_has_named w f ''querySelectorAll'' then Inl TypeError
      else
        (let inputs = querySelectorAll w f controlSelector in
         case collect_inputs (map (heap w) inputs) of
           (formData, fieldTypes, fieldDataDescriptions) \<Rightarrow>
             if enableHoneypot \<and> form_has_named w f ''querySelector'' then Inl TypeError
             else
               (let formData1 =
                      (if enableHoneypot then
                         (case querySelector w f honeypotSelector of
                            None \<Rightarrow> formData
                          | Some h \<Rightarrow>
                              AList.update ''_honeypot_filled'' (JBool (el_value (heap w h) \<noteq> []))
                                (AList.update ''_honeypot_field_name'' (JStr (el_name (heap w h)))
                                   formData))
                       else formData);
                    formData2 = AList.update ''fieldTypes'' (JObj fieldTypes) formData1
                in Inr (AList.update ''fieldDataDescriptions'' (JObj fieldDataDescriptions)
                          formData2))))"

section \<open>ChallengeLifecycleManager\<close>

text \<open>
  \<open>renderTurnstile\<close>: reuse or create the container, ask the provider for a widget and
  keep its handle, then disable the submit control. With \<open>window.turnstile\<close> undefined
  the call \<open>window.turnstile.render\<close> throws and the rest is not executed.
\<close>

definition renderTurnstile :: "cref \<Rightarrow> world \<Rightarrow> world" where
  "renderTurnstile c w =
     (let f = formElement (cfgs w c);
          (turnstileContainer, w1) =
            (case querySelector w f containerSelector of
               Some k \<Rightarrow> (k, w)
             | None \<Rightarrow>
                 (let (k, w') =
                        createElement
                          (set_style ''marginBottom'' ''20px''
                             ((blank_element ''div'')\<lparr>classList := [turnstileContainerClass]\<rparr>)) w
                  in case submitButton (cfgs w' c) of
                       Some b \<Rightarrow> (k, insert_before f k b w')
                     | None \<Rightarrow> (k, append_child f k w')))
      in if turnstile w1 then
           (let w2 = w1\<lparr>provider_calls :=
                          provider_calls w1 @ [Render turnstileContainer (siteKey (cfgs w1 c)) c],
                        next_widget := Suc (next_widget w1)\<rparr>;
                w3 = upd_cfg c (\<lambda>k. k\<lparr>turnstileWidgetId := Some (next_widget w1)\<rparr>) w2
            in disableSubmitButton c w3)
         else w1)"

text \<open>The three callbacks handed to \<open>window.turnstile.render\<close>.\<close>

definition token_callback :: "cref \<Rightarrow> string \<Rightarrow> world \<Rightarrow> world" where
  "token_callback c token w =
     enableSubmitButton c (upd_cfg c (\<lambda>k. k\<lparr>turnstileToken := Some token\<rparr>) w)"

definition error_callback :: "cref \<Rightarrow> world \<Rightarrow> world" where
  "error_callback c w =
     showError c ''Security verification failed. Please try again.''
       (disableSubmitButton c (upd_cfg c (\<lambda>k. k\<lparr>turnstileToken := None\<rparr>) w))"

definition expired_callback :: "cref \<Rightarrow> world \<Rightarrow> world" where
  "expired_callback c w =
     disableSubmitButton c (upd_cfg c (\<lambda>k. k\<lparr>turnstileToken := None\<rparr>) w)"

text \<open>
  \<open>loadTurnstile\<close>: while \<open>window.turnstile\<close> is undefined a script element is appended
  whose \<open>onload\<close> is the callback; otherwise the callback runs at once.
\<close>

definition loadTurnstile :: "cref \<Rightarrow> world \<Rightarrow> world" where
  "loadTurnstile c w =
     (if \<not> turnstile w then w\<lparr>head_scripts := head_scripts w @ [c]\<rparr>
      else renderTurnstile c w)"

text \<open>The \<open>k\<close>-th appended script has run (defining \<open>window.turnstile\<close>) and fires \<open>onload\<close>.\<close>

definition script_onload :: "nat \<Rightarrow> world \<Rightarrow> world" where
  "script_onload k w =
     (if k < length (head_scripts w)
      then renderTurnstile (head_scripts w ! k) (w\<lparr>turnstile := True\<rparr>)
      else w)"

text \<open>
  \<open>resetTurnstileOnError\<close>. A throwing \<open>reset\<close> is caught and ignored, so the provider
  call has no further effect here. \<open>setTimeout\<close> queues the re-render check.
\<close>

definition resetTurnstileOnError :: "cref \<Rightarrow> world \<Rightarrow> world" where
  "resetTurnstileOnError c w =
     (if turnstile w then
        (let w1 = w\<lparr>provider_calls :=
                       provider_calls w @
                         [case turnstileWidgetId (cfgs w c) of
                            Some i \<Rightarrow> Reset (Some i)
                          | None \<Rightarrow> Reset None]\<rparr>;
             w2 = upd_cfg c (\<lambda>k. k\<lparr>turnstileToken := None\<rparr>) w1;
             w3 = disableSubmitButton c w2
         in w3\<lparr>timers := timers w3 @ [c]\<rparr>)
      else w)"

text \<open>The queued timer callback, one second later.\<close>

definition timer_callback :: "cref \<Rightarrow> world \<Rightarrow> world" where
  "timer_callback c w =
     (if \<not> truthy (turnstileToken (cfgs w c)) then renderTurnstile c w else w)"

section \<open>TrapInjector\<close>

definition honeypot_cssText :: string where
  "honeypot_cssText =
     ''position: absolute !important; left: -9999px !important; top: -9999px !important; width: 1px !important; height: 1px !important; opacity: 0 !important; pointer-events: none !important;''"

text \<open>
  \<open>setupHoneypot\<close>; \<open>r\<close> is the value of
  \<open>Math.floor(Math.random() * honeypotFieldNames.length)\<close>, an index into the pool.
\<close>

definition setupHoneypot :: "cref \<Rightarrow> nat \<Rightarrow> world \<Rightarrow> world" where
  "setupHoneypot c r w =
     (if \<not> enableHoneypot then w
      else
        (let f = formElement (cfgs w c) in
         case querySelector w f honeypotSelector of
           Some existingHoneypot \<Rightarrow> w
         | None \<Rightarrow>
             (let randomFieldName = honeypotFieldNames ! (r mod length honeypotFieldNames);
                  honeypotField =
                    setAttribute ''aria-hidden'' ''true''
                      (set_style ''cssText'' honeypot_cssText
                         (setAttribute ''autocomplete'' ''off''
                            (setAttribute ''tabindex'' ''-1''
                               (setAttribute ''data-honeypot'' ''true''
                                  ((blank_element ''input'')
                                     \<lparr>el_name := randomFieldName, el_type := ''text''\<rparr>)))));
                  (h, w1) = createElement honeypotField w
              in insert_first f h w1)))"

definition setupPageUrlField :: "cref \<Rightarrow> world \<Rightarrow> world" where
  "setupPageUrlField c w =
     (if \<not> pageUrlField_enabled then w
      else
        (let f = formElement (cfgs w c) in
         case querySelector w f pageUrlSelector of
           Some existingPageUrlField \<Rightarrow>
             upd_el existingPageUrlField (\<lambda>e. e\<lparr>el_value := location_href w\<rparr>) w
         | None \<Rightarrow>
             (let pageUrlField =
                    setAttribute ''cf-field-type'' ''system-metadata''
                      (setAttribute ''data-page-url'' ''true''
                         ((blank_element ''input'')
                            \<lparr>el_name := pageUrlField_fieldName, el_type := ''hidden'',
                             el_value := location_href w\<rparr>));
                  (p, w1) = createElement pageUrlField w
              in insert_first f p w1)))"

section \<open>ConfigValidator\<close>

datatype config_error =
    MissingFieldType "string option"
  | MissingFieldData "string option"
  | MissingFieldName "string option"

record field_descriptor =
  fd_name :: "string option"
  fd_type :: "string option"
  fd_data :: "string option"

record field_validation =
  valid :: bool
  errors :: "config_error list"
  configuredFields :: "field_descriptor list"

text \<open>\<open>field.name || field.getAttribute("name")\<close>: the name attribute when it is non-empty.\<close>

definition field_name :: "element \<Rightarrow> string option" where
  "field_name e = (if el_name e \<noteq> [] then Some (el_name e) else None)"

definition validate_field ::
    "element \<Rightarrow> config_error list \<times> field_descriptor list \<Rightarrow>
     config_error list \<times> field_descriptor list" where
  "validate_field field acc =
     (case acc of (errs, configured) \<Rightarrow>
        (let fieldType = getAttribute ''cf-field-type'' field;
             fieldData = getAttribute ''cf-field-data'' field;
             fieldName = field_name field;
             errs1 = (if \<not> truthy fieldType then errs @ [MissingFieldType fieldName] else errs);
             errs2 = (if \<not> truthy fieldData \<and> fieldType \<noteq> Some ''ignore''
                         \<and> fieldType \<noteq> Some ''system-metadata''
                      then errs1 @ [MissingFieldData fieldName] else errs1);
             errs3 = (if \<not> truthy fieldName then errs2 @ [MissingFieldName fieldType] else errs2)
         in (errs3,
             configured @ [\<lparr>fd_name = fieldName, fd_type = fieldType, fd_data = fieldData\<rparr>])))"

definition validateFieldConfiguration :: "node \<Rightarrow> world \<Rightarrow> field_validation" where
  "validateFieldConfiguration f w =
     (let fields = querySelectorAll w f fieldTypeSelector in
      case fold validate_field (map (heap w) fields) ([], []) of
        (errs, configured) \<Rightarrow>
          \<lparr>valid = (errs = []), errors = errs, configuredFields = configured\<rparr>)"

section \<open>SubmissionController\<close>

text \<open>
  The verification response as the interface gives it:
  \<open>{ success: boolean, error?: { message: string } }\<close>. A rejected \<open>fetch\<close> or a body
  that is not JSON lands in the \<open>catch\<close> block.
\<close>

record verification_result =
  success :: bool
  error_message :: "string option"

datatype fetch_outcome = Rejected | Responded verification_result

text \<open>\<open>result.error?.message || fallback\<close>: an absent or empty message gives the fallback.\<close>

definition message_or :: "string option \<Rightarrow> string \<Rightarrow> string" where
  "message_or m fallback =
     (case m of None \<Rightarrow> fallback | Some s \<Rightarrow> if s \<noteq> [] then s else fallback)"

definition opt_js :: "string option \<Rightarrow> jsval" where
  "opt_js x = (case x of None \<Rightarrow> JNull | Some s \<Rightarrow> JStr s)"

text \<open>
  The payload of \<open>handleFormSubmit\<close>: the collected data with the \<open>metadata\<close> key
  assigned on top of it (replacing what a control of that name had stored), wrapped
  with the token. An exception of \<open>collectFormData\<close> propagates.
\<close>

definition submission_metadata :: "cref \<Rightarrow> world \<Rightarrow> jsval" where
  "submission_metadata c w =
     JObj [(''submissionTime'', JNum (date_now w)),
           (''pageLoadTime'', JNum (loadEventEnd w)),
           (''userAgent'', JStr (userAgent w)),
           (''referrer'', JStr (referrer w)),
           (''timezone'', JStr (timeZone w)),
           (''formId'', opt_js (formId (cfgs w c))),
           (''formPurpose'', opt_js (formPurpose (cfgs w c)))]"

definition payload_formData :: "cref \<Rightarrow> world \<Rightarrow> js_error + jsobj" where
  "payload_formData c w =
     (case collectFormData c w of
        Inl e \<Rightarrow> Inl e
      | Inr formData \<Rightarrow> Inr (AList.update ''metadata'' (submission_metadata c w) formData))"

definition build_payload :: "cref \<Rightarrow> world \<Rightarrow> js_error + jsval" where
  "build_payload c w =
     (case payload_formData c w of
        Inl e \<Rightarrow> Inl e
      | Inr formData \<Rightarrow>
          Inr (JObj [(''turnstileToken'', opt_js (turnstileToken (cfgs w c))),
                     (''formData'', JObj formData),
                     (''fieldTypes'', (case map_of formData ''fieldTypes'' of
                                         Some v \<Rightarrow> v | None \<Rightarrow> JNull)),
                     (''formPurpose'', opt_js (formPurpose (cfgs w c)))]))"

text \<open>
  \<open>handleFormSubmit\<close> is asynchronous. Its second part resumes inside the \<open>try\<close> block
  with the outcome of the request; \<open>finally\<close> runs last.
\<close>

definition handleFormSubmit_settle :: "cref \<Rightarrow> fetch_outcome \<Rightarrow> world \<Rightarrow> world" where
  "handleFormSubmit_settle c outcome w =
     (let w1 =
            (case outcome of
               Responded result \<Rightarrow>
                 if success result then handleSuccess c w
                 else
                   showError c
                     (message_or (error_message result)
                        ''Something went wrong. Please try again.'')
                     (resetTurnstileOnError c w)
             | Rejected \<Rightarrow>
                 showError c ''Network error. Please check your connection and try again.''
                   (resetTurnstileOnError c w))
      in setSubmitButtonLoading c False w1)"

text \<open>
  Its first part runs up to the \<open>fetch\<close>; the flag tells whether a request was issued,
  that is, whether the function is now suspended inside its \<open>try\<close> block. An exception
  raised while the payload is built is caught by the \<open>catch\<close> block that also takes a
  rejected request, and \<open>finally\<close> follows: no request is issued.
\<close>

definition handleFormSubmit_begin :: "cref \<Rightarrow> world \<Rightarrow> bool \<times> world" where
  "handleFormSubmit_begin c w =
     (let w1 = hideError c w in
      if \<not> truthy (turnstileToken (cfgs w1 c))
      then (False, showError c ''Please complete the security verification.'' w1)
      else
        (let w2 = setSubmitButtonLoading c True w1 in
         case build_payload c w2 of
           Inl e \<Rightarrow> (False, handleFormSubmit_settle c Rejected w2)
         | Inr payload \<Rightarrow>
             (True,
              w2\<lparr>requests := requests w2 @
                    [\<lparr>req_url = workerUrl, req_method = ''POST'', req_body = payload\<rparr>]\<rparr>)))"

text \<open>One whole submission, with nothing else happening while the request is in flight.\<close>

definition handleFormSubmit :: "cref \<Rightarrow> fetch_outcome \<Rightarrow> world \<Rightarrow> world" where
  "handleFormSubmit c outcome w =
     (case handleFormSubmit_begin c w of
        (True, w') \<Rightarrow> handleFormSubmit_settle c outcome w'
      | (False, w') \<Rightarrow> w')"

definition setupFormSubmission :: "cref \<Rightarrow> world \<Rightarrow> world" where
  "setupFormSubmission c w =
     w\<lparr>listeners := listeners w @
          [\<lparr>l_target = formElement (cfgs w c), l_capture = False, l_fn = SubmitMain c\<rparr>,
           \<lparr>l_target = formElement (cfgs w c), l_capture = True, l_fn = SubmitBackstop\<rparr>]\<rparr>"

text \<open>
  A submit event and its dispatch on the form, which is the event's target.
  \<open>isValid\<close> is what \<open>form.checkValidity()\<close> returns. Browsers differ in the order of the
  listeners of a target: capturing ones first, or all in the order they were added.
\<close>

record event =
  defaultPrevented :: bool
  propagationStopped :: bool
  immediateStopped :: bool

definition run_listener :: "bool \<Rightarrow> listener_entry \<Rightarrow> event \<times> world \<Rightarrow> event \<times> world" where
  "run_listener isValid l s =
     (case s of (e, w) \<Rightarrow>
        (case l_fn l of
           SubmitMain c \<Rightarrow>
             if \<not> isValid then (e, w)
             else (e\<lparr>defaultPrevented := True, propagationStopped := True,
                     immediateStopped := True\<rparr>,
                   snd (handleFormSubmit_begin c w))
         | SubmitBackstop \<Rightarrow> (e\<lparr>defaultPrevented := True\<rparr>, w)))"

fun run_listeners :: "bool \<Rightarrow> listener_entry list \<Rightarrow> event \<times> world \<Rightarrow> event \<times> world" where
  "run_listeners isValid [] s = s"
| "run_listeners isValid (l # ls) s =
     (let s' = run_listener isValid l s
      in if immediateStopped (fst s') then s' else run_listeners isValid ls s')"

definition submit_listeners :: "bool \<Rightarrow> node \<Rightarrow> world \<Rightarrow> listener_entry list" where
  "submit_listeners capture_first f w =
     (let ls = filter (\<lambda>l. l_target l = f) (listeners w)
      in if capture_first then filter l_capture ls @ filter (\<lambda>l. \<not> l_capture l) ls else ls)"

definition dispatch_submit :: "bool \<Rightarrow> node \<Rightarrow> bool \<Rightarrow> world \<Rightarrow> event \<times> world" where
  "dispatch_submit capture_first f isValid w =
     run_listeners isValid (submit_listeners capture_first f w)
       (\<lparr>defaultPrevented = False, propagationStopped = False, immediateStopped = False\<rparr>, w)"

section \<open>Setup\<close>

definition setupSingleForm :: "node \<Rightarrow> nat \<Rightarrow> world \<Rightarrow> world" where
  "setupSingleForm f r w =
     (let config =
            \<lparr>formId = getAttribute ''cf-form'' (heap w f),
             formPurpose = getAttribute ''cf-form-purpose'' (heap w f),
             siteKey = getAttribute ''cf-turnstile-sitekey'' (heap w f),
             formElement = f,
             submitButton = querySelector w f submitButtonSelector,
             submitLabel = querySelector w f submitLabelSelector,
             errorElement = querySelector w f errorElementSelector,
             errorText = querySelector w f errorTextSelector,
             successElement = document_querySelector w successElementSelector,
             turnstileToken = None,
             turnstileWidgetId = None,
             originalButtonText = None\<rparr>
      in if \<not> (truthy (siteKey config) \<and> truthy (formPurpose config)) then w
         else if \<not> valid (validateFieldConfiguration f w) then w
         else
           (let c = length (forms w);
                w1 = w\<lparr>cfgs := (cfgs w)(c := config), forms := forms w @ [c]\<rparr>;
                w2 = setupHoneypot c r w1;
                w3 = setupPageUrlField c w2;
                w4 = loadTurnstile c w3
            in setupFormSubmission c w4))"

text \<open>
  \<open>setupForms\<close>: every form matching the selector, in document order; \<open>rnd f\<close> is the
  random index drawn while form \<open>f\<close> is set up.
\<close>

definition setupForms :: "(node \<Rightarrow> nat) \<Rightarrow> world \<Rightarrow> world" where
  "setupForms rnd w =
     fold (\<lambda>f. setupSingleForm f (rnd f)) (document_querySelectorAll w formSelector) w"

section \<open>An example page\<close>

definition blank_config :: config where
  "blank_config =
     \<lparr>formId = None, formPurpose = None, siteKey = None, formElement = 0,
      submitButton = None, submitLabel = None, errorElement = None, errorText = None,
      successElement = None, turnstileToken = None, turnstileWidgetId = None,
      originalButtonText = None\<rparr>"

definition blank_world :: world where
  "blank_world =
     \<lparr>heap = (\<lambda>_. blank_element []), next_node = 0, body = [], kids = (\<lambda>_. []),
      head_scripts = [], turnstile = False, cfgs = (\<lambda>_. blank_config), forms = [],
      listeners = [], alerts = [], requests = [], provider_calls = [], next_widget = 0,
      timers = [], location_href = [], date_now = 0, loadEventEnd = 0, userAgent = [],
      referrer = [], timeZone = []\<rparr>"

definition mk_el :: "string \<Rightarrow> (string \<times> string) list \<Rightarrow> element" where
  "mk_el t as = (blank_element t)\<lparr>attrs := as\<rparr>"

definition mk_input :: "string \<Rightarrow> string \<Rightarrow> string \<Rightarrow> bool \<Rightarrow> (string \<times> string) list \<Rightarrow> element" where
  "mk_input ty nm v ch as =
     (blank_element ''input'')\<lparr>el_type := ty, el_name := nm, el_value := v, checked := ch, attrs := as\<rparr>"

text \<open>
  Two annotated forms, each followed by its success region. The first has a text
  field, a checked checkbox, a radio group with nothing chosen, a named
  \<open>input type="button"\<close>, a submit control with a label and an error region; the second
  has one field and a submit control.
\<close>

definition example_heap :: "node \<Rightarrow> element" where
  "example_heap =
     (\<lambda>_. blank_element [])
       (0 := mk_el ''form'' [(''cf-form'', ''contact''), (''cf-form-purpose'', ''Contact requests''),
                            (''cf-turnstile-sitekey'', ''key-a'')],
        1 := mk_input ''email'' ''email'' ''ann@example.org'' False
               [(''cf-field-type'', ''email''), (''cf-field-data'', ''work email'')],
        2 := mk_input ''checkbox'' ''subscribe'' ''on'' True
               [(''cf-field-type'', ''consent''), (''cf-field-data'', ''newsletter opt-in'')],
        3 := mk_input ''radio'' ''plan'' ''basic'' False
               [(''cf-field-type'', ''choice''), (''cf-field-data'', ''plan'')],
        4 := mk_input ''radio'' ''plan'' ''pro'' False
               [(''cf-field-type'', ''choice''), (''cf-field-data'', ''plan'')],
        5 := mk_input ''button'' ''helper'' ''Go'' False [(''cf-field-type'', ''ignore'')],
        6 := mk_el ''button'' [(''cf-form-submit'', ''trigger'')],
        7 := (mk_el ''span'' [(''cf-form-submit'', ''button-label'')])\<lparr>innerHTML := ''Send''\<rparr>,
        8 := (mk_el ''div'' [(''cf-form-submit'', ''error'')])\<lparr>classList := [''hide'']\<rparr>,
        9 := mk_el ''div'' [(''cf-form-submit'', ''error-text'')],
        10 := mk_el ''div'' [(''cf-form-submit'', ''success'')],
        11 := mk_el ''form'' [(''cf-form'', ''newsletter''), (''cf-form-purpose'', ''Newsletter''),
                             (''cf-turnstile-sitekey'', ''key-b'')],
        12 := mk_input ''email'' ''address'' ''bob@example.org'' False
               [(''cf-field-type'', ''email''), (''cf-field-data'', ''subscriber email'')],
        13 := mk_el ''button'' [(''cf-form-submit'', ''trigger'')],
        14 := mk_el ''div'' [(''cf-form-submit'', ''success'')])"

definition example_page :: world where
  "example_page =
     blank_world
       \<lparr>heap := example_heap, next_node := 15, body := [0, 10, 11, 14],
        kids := (\<lambda>_. [])(0 := [1, 2, 3, 4, 5, 6, 7, 8, 9], 11 := [12, 13]),
        location_href := ''https://example.org/contact''\<rparr>"

text \<open>The page after setup, with the provider script loaded for both forms.\<close>

definition example_setup :: world where
  "example_setup = setupForms (\<lambda>_. 0) example_page"

definition example_rendered :: world where
  "example_rendered = script_onload 1 (script_onload 0 example_setup)"

text \<open>Both widgets have delivered a token.\<close>

definition example_ready :: world where
  "example_ready = token_callback 1 ''tok-456'' (token_callback 0 ''tok-123'' example_rendered)"

section \<open>Loading cycles\<close>

text \<open>One loading cycle of the submit control: entering the loading state, then leaving it.\<close>

definition loading_cycle :: "cref \<Rightarrow> world \<Rightarrow> world" where
  "loading_cycle c w = setSubmitButtonLoading c False (setSubmitButtonLoading c True w)"

section \<open>Vocabulary for the claims\<close>

text \<open>
  The controls that \<open>collectFormData\<close> enumerates; the condition under which its loop
  stores a value under a control's name, and that value; the last enumerated control
  that stores a value under a given name; the keys that the handler assigns itself
  after the loop; and the condition under which one of the two queries of
  \<open>collectFormData\<close> raises.
\<close>

definition enumerated :: "cref \<Rightarrow> world \<Rightarrow> element list" where
  "enumerated c w = map (heap w) (querySelectorAll w (formElement (cfgs w c)) controlSelector)"

definition writes_value :: "element \<Rightarrow> bool" where
  "writes_value x =
     (el_name x \<noteq> [] \<and> el_name x \<noteq> ''__proto__'' \<and> el_type x \<noteq> ''submit''
      \<and> \<not> (el_type x = ''radio'' \<and> \<not> checked x))"

definition written_value :: "element \<Rightarrow> jsval" where
  "written_value x =
     (if el_type x = ''checkbox'' then JBool (checked x) else JStr (el_value x))"

definition last_writer :: "string \<Rightarrow> element list \<Rightarrow> element option" where
  "last_writer n xs = List.find (\<lambda>x. el_name x = n \<and> writes_value x) (rev xs)"

definition reserved_keys :: "string list" where
  "reserved_keys =
     [''_honeypot_field_name'', ''_honeypot_filled'', ''fieldTypes'', ''fieldDataDescriptions'',
      ''metadata'']"

definition query_shadowed :: "cref \<Rightarrow> world \<Rightarrow> bool" where
  "query_shadowed c w =
     (form_has_named w (formElement (cfgs w c)) ''querySelectorAll''
      \<or> form_has_named w (formElement (cfgs w c)) ''querySelector'')"





text \<open>
  A form with a group of two checkboxes sharing a name (the first checked, the second
  not), a checked checkbox named \<open>metadata\<close> and a checked checkbox named \<open>__proto__\<close>.
\<close>

definition example_survey :: world where
  "example_survey =
     blank_world
       \<lparr>heap := (\<lambda>_. blank_element [])
          (0 := mk_el ''form'' [(''cf-form'', ''survey''), (''cf-form-purpose'', ''Survey''),
                               (''cf-turnstile-sitekey'', ''key-d'')],
           1 := mk_input ''checkbox'' ''interests'' ''news'' True [],
           2 := mk_input ''checkbox'' ''interests'' ''offers'' False [],
           3 := mk_input ''checkbox'' ''metadata'' ''on'' True [],
           4 := mk_input ''checkbox'' ''__proto__'' ''on'' True []),
        next_node := 5, body := [0], kids := (\<lambda>_. [])(0 := [1, 2, 3, 4])\<rparr>"

text \<open>The example page after a script has renamed its first field.\<close>

definition example_shadowed :: world where
  "example_shadowed = upd_el 1 (\<lambda>e. e\<lparr>el_name := ''querySelectorAll''\<rparr>) example_ready"

text \<open>The example page after the visitor has chosen the second plan.\<close>

definition example_chosen :: world where
  "example_chosen = upd_el 4 (\<lambda>e. e\<lparr>checked := True\<rparr>) example_ready"

section \<open>Facts about the example page\<close>

lemma example_rendered_cfg0:
  "turnstileToken (cfgs example_rendered 0) = None"
  "errorElement (cfgs example_rendered 0) = Some 8"
  "errorText (cfgs example_rendered 0) = Some 9"
  by code_simp+

lemma example_rendered_cfg1:
  "turnstileToken (cfgs example_rendered (Suc 0)) = None"
  "errorElement (cfgs example_rendered (Suc 0)) = None"
  by code_simp+

lemma example_ready_cfg0:
  "submitButton (cfgs example_ready 0) = Some 6"
  "submitLabel (cfgs example_ready 0) = Some 7"
  "innerHTML (heap example_ready 7) = ''Send''"
  by code_simp+

section \<open>Submission with a null token\<close>

text \<open>
  Claim C1. A submission attempted while the registration's challenge token is null
  issues no request (the function does not even reach its \<open>try\<close> block), enters no
  loading state (no element's disabled flag or label text changes, the registration
  is unchanged), and shows the message "Please complete the security verification.":
  in the error-text element with the error region revealed, or in an alert when the
  registration lacks one of the two.
\<close>

theorem null_token_aborts:
  assumes "turnstileToken (cfgs w c) = None"
  shows "fst (handleFormSubmit_begin c w) = False
     \<and> requests (handleFormSubmit c outcome w) = requests w
     \<and> cfgs (handleFormSubmit c outcome w) = cfgs w
     \<and> (\<forall>n. disabled (heap (handleFormSubmit c outcome w) n) = disabled (heap w n)
            \<and> innerHTML (heap (handleFormSubmit c outcome w) n) = innerHTML (heap w n))
     \<and> (case (errorElement (cfgs w c), errorText (cfgs w c)) of
           (Some e, Some t) \<Rightarrow>
              textContent (heap (handleFormSubmit c outcome w) t) =
                ''Please complete the security verification.''
              \<and> hideClass \<notin> set (classList (heap (handleFormSubmit c outcome w) e))
              \<and> alerts (handleFormSubmit c outcome w) = alerts w
         | _ \<Rightarrow>
              alerts (handleFormSubmit c outcome w) =
                alerts w @ [''Please complete the security verification.''])"
  using assms
  by (auto simp: handleFormSubmit_def handleFormSubmit_begin_def Let_def showError_def
        hideError_def upd_el_def classList_remove_def classList_add_def
      split: option.splits)

theorem null_token_aborts_witness:
  "turnstileToken (cfgs example_rendered 0) = None
   \<and> requests (handleFormSubmit 0 Rejected example_rendered) = requests example_rendered
   \<and> textContent (heap (handleFormSubmit 0 Rejected example_rendered) 9) =
       ''Please complete the security verification.''
   \<and> turnstileToken (cfgs example_rendered (Suc 0)) = None
   \<and> alerts (handleFormSubmit (Suc 0) Rejected example_rendered) =
       alerts example_rendered @ [''Please complete the security verification.'']"
proof -
  note a = null_token_aborts [OF example_rendered_cfg0(1), of Rejected]
  note b = null_token_aborts [OF example_rendered_cfg1(1), of Rejected]
  from a b show ?thesis
    by (simp add: example_rendered_cfg0 example_rendered_cfg1)
qed

section \<open>Showing and hiding errors\<close>

text \<open>
  Claim C10. When the registration lacks the error region or the error-text element,
  \<open>showError\<close> does nothing but raise an alert with the message; when it has both, the
  message becomes the text of the error-text element and the error region is
  revealed. So the message reaches the user in every case. \<open>hideError\<close> does nothing
  when the error region is absent.
\<close>

theorem showError_fallback:
  "(errorElement (cfgs w c) = None \<or> errorText (cfgs w c) = None \<longrightarrow>
      showError c m w = w\<lparr>alerts := alerts w @ [m]\<rparr>)
   \<and> (\<forall>e t. errorElement (cfgs w c) = Some e \<and> errorText (cfgs w c) = Some t \<longrightarrow>
         textContent (heap (showError c m w) t) = m
         \<and> hideClass \<notin> set (classList (heap (showError c m w) e))
         \<and> alerts (showError c m w) = alerts w)
   \<and> (errorElement (cfgs w c) = None \<longrightarrow> hideError c w = w)"
  by (auto simp: showError_def hideError_def upd_el_def classList_remove_def
      split: option.splits)

theorem showError_fallback_witness:
  "errorElement (cfgs example_rendered (Suc 0)) = None
   \<and> showError (Suc 0) ''Try again'' example_rendered =
       example_rendered\<lparr>alerts := alerts example_rendered @ [''Try again'']\<rparr>
   \<and> hideError (Suc 0) example_rendered = example_rendered
   \<and> errorElement (cfgs example_rendered 0) = Some 8
   \<and> errorText (cfgs example_rendered 0) = Some 9
   \<and> textContent (heap (showError 0 ''Try again'' example_rendered) 9) = ''Try again''
   \<and> hideClass \<notin> set (classList (heap (showError 0 ''Try again'' example_rendered) 8))"
proof -
  note a = showError_fallback [of example_rendered "Suc 0" "''Try again''"]
  note b = showError_fallback [of example_rendered 0 "''Try again''"]
  from a b show ?thesis
    by (simp add: example_rendered_cfg0 example_rendered_cfg1)
qed

section \<open>Submit events that fail constraint validation\<close>

lemma run_listeners_invalid:
  "\<not> immediateStopped e \<Longrightarrow>
   run_listeners False ls (e, w) =
     (e\<lparr>defaultPrevented := defaultPrevented e \<or> (\<exists>l\<in>set ls. l_fn l = SubmitBackstop)\<rparr>, w)"
proof (induction ls arbitrary: e)
  case Nil
  then show ?case by simp
next
  case (Cons l ls)
  show ?case
  proof (cases "l_fn l")
    case (SubmitMain c)
    with Cons show ?thesis by (simp add: run_listener_def)
  next
    case SubmitBackstop
    with Cons.prems Cons.IH [of "e\<lparr>defaultPrevented := True\<rparr>"] show ?thesis
      by (simp add: run_listener_def)
  qed
qed

text \<open>
  Claim C3, as the code has it. On a wired form, a submit event for which
  \<open>checkValidity()\<close> is false leaves the page as it was (the main listener returns at
  once: no submission is handled, propagation is not stopped), but the event is
  suppressed all the same: the capture-phase listener calls \<open>preventDefault\<close> on every
  submit event, in either listener order.
\<close>

theorem invalid_submit_is_prevented:
  "dispatch_submit capture_first (formElement (cfgs w c)) False (setupFormSubmission c w) =
     (\<lparr>defaultPrevented = True, propagationStopped = False, immediateStopped = False\<rparr>,
      setupFormSubmission c w)"
  by (auto simp: dispatch_submit_def submit_listeners_def run_listeners_invalid
        setupFormSubmission_def Let_def)

text \<open>
  The claim as stated (no listener applies \<open>preventDefault\<close> to such an event) fails on
  the first example form.
\<close>

theorem invalid_submit_counterexample:
  "defaultPrevented (fst (dispatch_submit True 0 False example_setup))
   \<and> defaultPrevented (fst (dispatch_submit False 0 False example_setup))"
  by code_simp

section \<open>The label of the submit control\<close>

lemma hideError_frame:
  "innerHTML (heap (hideError c w) n) = innerHTML (heap w n)"
  "cfgs (hideError c w) = cfgs w"
  by (auto simp: hideError_def upd_el_def classList_add_def split: option.splits)

lemma showError_frame:
  "innerHTML (heap (showError c m w) n) = innerHTML (heap w n)"
  "cfgs (showError c m w) = cfgs w"
  by (auto simp: showError_def upd_el_def classList_remove_def split: option.splits)

lemma handleSuccess_frame:
  "innerHTML (heap (handleSuccess c w) n) = innerHTML (heap w n)"
  "submitButton (cfgs (handleSuccess c w) k) = submitButton (cfgs w k)"
  "submitLabel (cfgs (handleSuccess c w) k) = submitLabel (cfgs w k)"
  "originalButtonText (cfgs (handleSuccess c w) k) = originalButtonText (cfgs w k)"
  by (auto simp: handleSuccess_def upd_el_def upd_cfg_def set_style_def Let_def
      split: option.splits)

lemma resetTurnstileOnError_frame:
  "innerHTML (heap (resetTurnstileOnError c w) n) = innerHTML (heap w n)"
  "submitButton (cfgs (resetTurnstileOnError c w) k) = submitButton (cfgs w k)"
  "submitLabel (cfgs (resetTurnstileOnError c w) k) = submitLabel (cfgs w k)"
  "originalButtonText (cfgs (resetTurnstileOnError c w) k) = originalButtonText (cfgs w k)"
  by (auto simp: resetTurnstileOnError_def disableSubmitButton_def upd_el_def upd_cfg_def
        set_style_def Let_def split: option.splits)

lemma loading_no_button:
  "submitButton (cfgs w c) = None \<Longrightarrow> setSubmitButtonLoading c b w = w"
  by (simp add: setSubmitButtonLoading_def)

lemma loading_enter:
  assumes "submitButton (cfgs w c) = Some b" "submitLabel (cfgs w c) = Some l"
  shows "innerHTML (heap (setSubmitButtonLoading c True w) l) = loadingText"
    and "originalButtonText (cfgs (setSubmitButtonLoading c True w) c) = Some (innerHTML (heap w l))"
    and "submitButton (cfgs (setSubmitButtonLoading c True w) c) = Some b"
    and "submitLabel (cfgs (setSubmitButtonLoading c True w) c) = Some l"
  using assms
  by (auto simp: setSubmitButtonLoading_def upd_el_def upd_cfg_def Let_def)

lemma loading_leave:
  assumes "submitButton (cfgs w c) = Some b" "submitLabel (cfgs w c) = Some l"
    and "originalButtonText (cfgs w c) = Some t" "t \<noteq> []"
  shows "innerHTML (heap (setSubmitButtonLoading c False w) l) = t"
  using assms
  by (auto simp: setSubmitButtonLoading_def upd_el_def upd_cfg_def Let_def)

lemma settle_restores:
  assumes "submitButton (cfgs w c) = Some b" "submitLabel (cfgs w c) = Some l"
    and "originalButtonText (cfgs w c) = Some t" "t \<noteq> []"
  shows "innerHTML (heap (handleFormSubmit_settle c outcome w) l) = t"
proof -
  let ?w1 = "case outcome of
               Responded result \<Rightarrow>
                 if success result then handleSuccess c w
                 else
                   showError c
                     (message_or (error_message result)
                        ''Something went wrong. Please try again.'')
                     (resetTurnstileOnError c w)
             | Rejected \<Rightarrow>
                 showError c ''Network error. Please check your connection and try again.''
                   (resetTurnstileOnError c w)"
  have "submitButton (cfgs ?w1 c) = Some b" "submitLabel (cfgs ?w1 c) = Some l"
       "originalButtonText (cfgs ?w1 c) = Some t"
    using assms
    by (auto simp: showError_frame handleSuccess_frame resetTurnstileOnError_frame
        split: fetch_outcome.splits)
  from loading_leave [OF this assms(4)] show ?thesis
    by (simp add: handleFormSubmit_settle_def Let_def)
qed

lemma settle_no_button:
  assumes "submitButton (cfgs w c) = None"
  shows "innerHTML (heap (handleFormSubmit_settle c outcome w) l) = innerHTML (heap w l)"
proof -
  let ?w1 = "case outcome of
               Responded result \<Rightarrow>
                 if success result then handleSuccess c w
                 else
                   showError c
                     (message_or (error_message result)
                        ''Something went wrong. Please try again.'')
                     (resetTurnstileOnError c w)
             | Rejected \<Rightarrow>
                 showError c ''Network error. Please check your connection and try again.''
                   (resetTurnstileOnError c w)"
  have a: "submitButton (cfgs ?w1 c) = None" "innerHTML (heap ?w1 l) = innerHTML (heap w l)"
    using assms
    by (auto simp: showError_frame handleSuccess_frame resetTurnstileOnError_frame
        split: fetch_outcome.splits)
  from loading_no_button [OF a(1)] a(2) show ?thesis
    by (simp add: handleFormSubmit_settle_def Let_def)
qed

lemma submission_keeps_label:
  assumes "submitLabel (cfgs w c) = Some l" "innerHTML (heap w l) \<noteq> []"
  shows "innerHTML (heap (handleFormSubmit c outcome w) l) = innerHTML (heap w l)"
proof (cases "truthy (turnstileToken (cfgs w c))")
  case False
  then show ?thesis
    by (simp add: handleFormSubmit_def handleFormSubmit_begin_def Let_def
        hideError_frame showError_frame)
next
  case True
  let ?w1 = "hideError c w"
  let ?w2 = "setSubmitButtonLoading c True ?w1"
  from True have "\<exists>out rq. handleFormSubmit c outcome w =
      handleFormSubmit_settle c out (?w2\<lparr>requests := rq\<rparr>)"
  proof (cases "build_payload c ?w2")
    case (Inl e)
    with True have "handleFormSubmit c outcome w =
        handleFormSubmit_settle c Rejected (?w2\<lparr>requests := requests ?w2\<rparr>)"
      by (simp add: handleFormSubmit_def handleFormSubmit_begin_def Let_def hideError_frame)
    then show ?thesis by blast
  next
    case (Inr payload)
    with True have "handleFormSubmit c outcome w =
        handleFormSubmit_settle c outcome
          (?w2\<lparr>requests := requests ?w2 @
              [\<lparr>req_url = workerUrl, req_method = ''POST'', req_body = payload\<rparr>]\<rparr>)"
      by (simp add: handleFormSubmit_def handleFormSubmit_begin_def Let_def hideError_frame)
    then show ?thesis by blast
  qed
  then obtain out rq where
    run: "handleFormSubmit c outcome w = handleFormSubmit_settle c out (?w2\<lparr>requests := rq\<rparr>)"
    by blast
  let ?w3 = "?w2\<lparr>requests := rq\<rparr>"
  show ?thesis
  proof (cases "submitButton (cfgs w c)")
    case None
    then have "?w2 = ?w1" by (simp add: loading_no_button hideError_frame)
    with None have "submitButton (cfgs ?w3 c) = None" "innerHTML (heap ?w3 l) = innerHTML (heap w l)"
      by (simp_all add: hideError_frame)
    with settle_no_button [of ?w3 c out l] run show ?thesis by simp
  next
    case (Some b)
    have pre: "submitButton (cfgs ?w1 c) = Some b" "submitLabel (cfgs ?w1 c) = Some l"
      using Some assms(1) by (simp_all add: hideError_frame)
    have "submitButton (cfgs ?w3 c) = Some b" "submitLabel (cfgs ?w3 c) = Some l"
      "originalButtonText (cfgs ?w3 c) = Some (innerHTML (heap w l))"
      using loading_enter [OF pre] by (simp_all add: hideError_frame)
    from settle_restores [OF this assms(2)] run show ?thesis by simp
  qed
qed

lemma loading_cycle_keeps:
  assumes "submitLabel (cfgs w c) = Some l" "innerHTML (heap w l) \<noteq> []"
  shows "submitLabel (cfgs (loading_cycle c w) c) = Some l
       \<and> innerHTML (heap (loading_cycle c w) l) = innerHTML (heap w l)"
  using assms
  by (auto simp: loading_cycle_def setSubmitButtonLoading_def upd_el_def upd_cfg_def Let_def
      split: option.splits)

lemma loading_cycles_keep:
  assumes "submitLabel (cfgs w c) = Some l" "innerHTML (heap w l) \<noteq> []"
  shows "submitLabel (cfgs ((loading_cycle c ^^ n) w) c) = Some l
       \<and> innerHTML (heap ((loading_cycle c ^^ n) w) l) = innerHTML (heap w l)"
proof (induction n)
  case 0
  from assms show ?case by simp
next
  case (Suc n)
  then show ?case using loading_cycle_keeps [of "(loading_cycle c ^^ n) w" c l] assms(2)
    by simp
qed

text \<open>
  Claim C8, as the code has it. Every entry into the loading state reads the label's
  current text into the registration (overwriting what an earlier cycle stored) and
  puts the loading text in its place. For a label that is not empty, a loading cycle
  that starts outside the loading state restores the label verbatim, so does any
  number of such cycles in sequence, and so does every whole submission, whatever its
  outcome.
\<close>

theorem loading_restores_label:
  assumes "submitButton (cfgs w c) = Some b" "submitLabel (cfgs w c) = Some l"
    and "innerHTML (heap w l) \<noteq> []"
  shows "originalButtonText (cfgs (setSubmitButtonLoading c True w) c) = Some (innerHTML (heap w l))
     \<and> innerHTML (heap (setSubmitButtonLoading c True w) l) = loadingText
     \<and> innerHTML (heap ((loading_cycle c ^^ n) w) l) = innerHTML (heap w l)
     \<and> innerHTML (heap (handleFormSubmit c outcome w) l) = innerHTML (heap w l)"
  using assms loading_cycles_keep [of w c l n] submission_keeps_label [of w c l outcome]
  by (auto simp: setSubmitButtonLoading_def upd_el_def upd_cfg_def Let_def)

theorem loading_restores_label_witness:
  "submitButton (cfgs example_ready 0) = Some 6
   \<and> submitLabel (cfgs example_ready 0) = Some 7
   \<and> innerHTML (heap example_ready 7) \<noteq> []
   \<and> originalButtonText (cfgs (setSubmitButtonLoading 0 True example_ready) 0) = Some ''Send''
   \<and> innerHTML (heap ((loading_cycle 0 ^^ 3) example_ready) 7) = ''Send''
   \<and> innerHTML (heap (handleFormSubmit 0 Rejected example_ready) 7) = ''Send''"
proof -
  have h: "innerHTML (heap example_ready 7) \<noteq> []"
    by (simp add: example_ready_cfg0)
  from loading_restores_label [OF example_ready_cfg0(1) example_ready_cfg0(2) h, of 3 Rejected]
  show ?thesis
    by (simp add: example_ready_cfg0)
qed

text \<open>
  The claim as stated (the original is captured once, before the first mutation, and
  every completed cycle restores it) fails when a second submission starts while the
  first is still waiting for its response: the second entry captures the loading
  text, and after both submissions have completed the label still shows it.
\<close>

theorem label_capture_counterexample:
  "(let w1 = snd (handleFormSubmit_begin 0 example_ready);
        w2 = snd (handleFormSubmit_begin 0 w1);
        w3 = handleFormSubmit_settle 0 Rejected w2;
        w4 = handleFormSubmit_settle 0 Rejected w3
    in innerHTML (heap example_ready 7) = ''Send''
       \<and> originalButtonText (cfgs w1 0) = Some ''Send''
       \<and> originalButtonText (cfgs w2 0) = Some ''Sending...''
       \<and> innerHTML (heap w4 7) = ''Sending...'')"
  by code_simp

section \<open>A rejected verification\<close>

text \<open>
  Claim C2, evaluated on the first example form holding the token \<open>tok-123\<close>, for the
  response \<open>{success: false, error: {message: "Spam detected"}}\<close>: afterwards the
  token is null and the collaborator's message is shown, but the submit control is
  enabled, because the \<open>finally\<close> block leaves the loading state after
  \<open>resetTurnstileOnError\<close> has disabled the control.
\<close>

theorem failure_leaves_submit_enabled:
  "(let w = handleFormSubmit 0
              (Responded \<lparr>success = False, error_message = Some ''Spam detected''\<rparr>)
              example_ready
    in turnstileToken (cfgs example_ready 0) = Some ''tok-123''
       \<and> submitButton (cfgs w 0) = Some 6
       \<and> turnstileToken (cfgs w 0) = None
       \<and> textContent (heap w 9) = ''Spam detected''
       \<and> disabled (heap w 6) = False)"
  by code_simp

section \<open>Loading the provider script\<close>

text \<open>
  Claim C4, evaluated on the example page: with two valid forms set up before the
  provider script has loaded, \<open>setupForms\<close> appends two script elements, one per form,
  each with its own \<open>onload\<close> callback.
\<close>

theorem two_forms_two_scripts:
  "turnstile example_page = False
   \<and> head_scripts example_page = []
   \<and> head_scripts (setupForms (\<lambda>_. 0) example_page) = [0, 1]"
  by code_simp

section \<open>Two forms on one page\<close>

text \<open>
  Claim C9, evaluated on the example page: both registrations hold the same success
  region (the first one of the document), so a successful submission of the second
  form reveals the region the first form's registration refers to and leaves the
  second form's own region untouched; and it resets the provider without naming the
  second form's widget.
\<close>

theorem success_touches_other_form:
  "(let w = handleFormSubmit 1 (Responded \<lparr>success = True, error_message = None\<rparr>) example_ready
    in successElement (cfgs example_ready 0) = Some 10
       \<and> successElement (cfgs example_ready 1) = Some 10
       \<and> style (heap example_ready 10) = []
       \<and> style (heap w 10) = [(''display'', ''block'')]
       \<and> style (heap w 14) = []
       \<and> turnstileWidgetId (cfgs example_ready 1) = Some 1
       \<and> provider_calls w = provider_calls example_ready @ [Reset None])"
  by code_simp

section \<open>Trap injection\<close>


























section \<open>What the collector writes\<close>

lemma collect_input_lookup:
  "map_of (fst (collect_input x acc)) n =
     (if el_name x = n \<and> writes_value x then Some (written_value x) else map_of (fst acc) n)"
  by (cases acc)
     (auto simp: collect_input_def js_assign_def writes_value_def written_value_def Let_def
        update_conv' split: option.splits)

lemma collect_fold_lookup:
  "map_of (fst (fold collect_input xs acc)) n =
     (case last_writer n xs of
        None \<Rightarrow> map_of (fst acc) n
      | Some x \<Rightarrow> Some (written_value x))"
proof (induction xs rule: rev_induct)
  case Nil
  show ?case by (simp add: last_writer_def)
next
  case (snoc x xs)
  then show ?case
    by (simp add: collect_input_lookup last_writer_def)
qed

lemma collect_input_proto:
  "el_name x = ''__proto__'' \<Longrightarrow> collect_input x acc = acc"
  by (cases acc) (auto simp: collect_input_def js_assign_def Let_def split: option.splits)

lemma collectFormData_throws:
  "query_shadowed c w \<Longrightarrow> collectFormData c w = Inl TypeError"
  by (auto simp: collectFormData_def query_shadowed_def enableHoneypot_def Let_def
      split: prod.splits)

lemma payload_formData_lookup:
  assumes "\<not> query_shadowed c w" "n \<notin> set reserved_keys"
  shows "\<exists>fd. payload_formData c w = Inr fd \<and>
           map_of fd n =
             (case last_writer n (enumerated c w) of
                None \<Rightarrow> None
              | Some x \<Rightarrow> Some (written_value x))"
proof -
  obtain fd ft fdd where r: "collect_inputs (enumerated c w) = (fd, ft, fdd)"
    by (cases "collect_inputs (enumerated c w)") auto
  have a: "map_of fd n =
     (case last_writer n (enumerated c w) of
        None \<Rightarrow> None
      | Some x \<Rightarrow> Some (written_value x))"
    using collect_fold_lookup [of "enumerated c w" "([], [], [])" n] r
    by (simp add: collect_inputs_def split: option.splits)
  from assms r obtain fd' where
    "payload_formData c w = Inr fd'" "map_of fd' n = map_of fd n"
    by (auto simp: payload_formData_def collectFormData_def query_shadowed_def enumerated_def
        Let_def reserved_keys_def update_conv' split: option.splits)
  with a show ?thesis by simp
qed

lemma find_SomeD:
  "List.find P xs = Some x \<Longrightarrow> P x \<and> x \<in> set xs"
  by (induction xs) (auto split: if_splits)

lemma last_writer_SomeD:
  "last_writer n xs = Some x \<Longrightarrow> x \<in> set xs \<and> el_name x = n \<and> writes_value x"
  using find_SomeD [of "\<lambda>x. el_name x = n \<and> writes_value x" "rev xs" x]
  by (simp add: last_writer_def)

lemma last_writer_None:
  "(last_writer n xs = None) = (\<not> (\<exists>x\<in>set xs. el_name x = n \<and> writes_value x))"
  by (auto simp: last_writer_def find_None_iff)

lemma payload_formData_keys:
  assumes "\<not> query_shadowed c w" "n \<notin> set reserved_keys"
  shows "(case payload_formData c w of
            Inl e \<Rightarrow> False
          | Inr fd \<Rightarrow>
              (map_of fd n \<noteq> None) =
              (\<exists>y\<in>set (enumerated c w). el_name y = n \<and> writes_value y))"
proof -
  from payload_formData_lookup [OF assms] obtain fd where
    fd: "payload_formData c w = Inr fd"
        "map_of fd n = (case last_writer n (enumerated c w) of
                None \<Rightarrow> None | Some x \<Rightarrow> Some (written_value x))"
    by blast
  show ?thesis
  proof (cases "last_writer n (enumerated c w)")
    case None
    with fd last_writer_None [of n "enumerated c w"] show ?thesis by simp
  next
    case (Some x)
    with fd last_writer_None [of n "enumerated c w"] show ?thesis by simp
  qed
qed

lemma example_controls:
  "el_name (heap example_ready 2) \<noteq> [] \<and> el_name (heap example_ready 2) \<noteq> ''__proto__''
     \<and> el_type (heap example_ready 2) = ''checkbox''"
  "checked (heap example_ready 2) = True"
  "el_name (heap example_ready 2) = ''subscribe''"
  "el_type (heap example_ready 3) = ''radio'' \<and> \<not> checked (heap example_ready 3)"
  "el_name (heap example_chosen 4) \<noteq> [] \<and> el_name (heap example_chosen 4) \<noteq> ''__proto__''
     \<and> el_type (heap example_chosen 4) = ''radio'' \<and> checked (heap example_chosen 4)"
  "el_name (heap example_chosen 4) = ''plan''"
  "el_value (heap example_chosen 4) = ''pro''"
  by code_simp+

lemma example_subscribe:
  "\<not> query_shadowed 0 example_ready \<and> ''subscribe'' \<notin> set reserved_keys
     \<and> last_writer ''subscribe'' (enumerated 0 example_ready) = Some (heap example_ready 2)
     \<and> el_type (heap example_ready 2) = ''checkbox''"
  by code_simp

lemma example_plan_chosen:
  "\<not> query_shadowed 0 example_chosen \<and> ''plan'' \<notin> set reserved_keys
     \<and> last_writer ''plan'' (enumerated 0 example_chosen) = Some (heap example_chosen 4)
     \<and> el_type (heap example_chosen 4) = ''radio''"
  by code_simp

lemma example_plan_open:
  "\<not> query_shadowed 0 example_ready \<and> ''plan'' \<notin> set reserved_keys
       \<and> (\<forall>z\<in>set (enumerated 0 example_ready). el_name z = ''plan'' \<longrightarrow>
             el_type z = ''radio'' \<and> \<not> checked z)"
  by code_simp

lemma example_helper:
  "writes_value (heap example_ready 5)"
  "el_name (heap example_ready 5) = ''helper''"
  "written_value (heap example_ready 5) = JStr ''Go''"
  "el_name (heap example_ready 6) = []"
  "\<not> query_shadowed 0 example_ready \<and> ''helper'' \<notin> set reserved_keys"
  "\<exists>y\<in>set (enumerated 0 example_ready). el_name y = ''helper'' \<and> writes_value y"
  "el_name (heap example_survey 4) = ''__proto__''"
  "query_shadowed 0 example_shadowed"
  by code_simp+

section \<open>Checkboxes and radios in the payload\<close>

text \<open>
  Claim C6, as the code has it. For a control that the collector visits, with a name
  that is neither empty nor \<open>__proto__\<close>: a checkbox is written as the boolean of its
  checked state, a checked radio as its string value, and an unchecked radio writes
  nothing, so it never maps its name to an empty string or to false. Writes to one
  name replace each other, and the handler afterwards assigns five keys of its own.
  So, when collection does not raise and for a name that is none of those keys: the
  payload's form data map the name to the boolean of the last control of that name
  that writes when it is a checkbox, to its value when it is a (then checked) radio,
  and leave absent a name that only unchecked radios carry.
\<close>

theorem checkbox_radio_serialization:
  "(el_name x \<noteq> [] \<and> el_name x \<noteq> ''__proto__'' \<and> el_type x = ''checkbox'' \<longrightarrow>
      map_of (fst (collect_input x acc)) (el_name x) = Some (JBool (checked x)))
   \<and> (el_name x \<noteq> [] \<and> el_name x \<noteq> ''__proto__'' \<and> el_type x = ''radio'' \<and> checked x \<longrightarrow>
      map_of (fst (collect_input x acc)) (el_name x) = Some (JStr (el_value x)))
   \<and> (el_type x = ''radio'' \<and> \<not> checked x \<longrightarrow> fst (collect_input x acc) = fst acc)
   \<and> (\<not> query_shadowed c w \<and> n \<notin> set reserved_keys
       \<and> last_writer n (enumerated c w) = Some y \<and> el_type y = ''checkbox'' \<longrightarrow>
      (case payload_formData c w of
         Inl e \<Rightarrow> False
       | Inr fd \<Rightarrow> map_of fd n = Some (JBool (checked y))))
   \<and> (\<not> query_shadowed c w \<and> n \<notin> set reserved_keys
       \<and> last_writer n (enumerated c w) = Some y \<and> el_type y = ''radio'' \<longrightarrow>
      (case payload_formData c w of
         Inl e \<Rightarrow> False
       | Inr fd \<Rightarrow> checked y \<and> map_of fd n = Some (JStr (el_value y))))
   \<and> (\<not> query_shadowed c w \<and> n \<notin> set reserved_keys
       \<and> (\<forall>z\<in>set (enumerated c w). el_name z = n \<longrightarrow> el_type z = ''radio'' \<and> \<not> checked z) \<longrightarrow>
      (case payload_formData c w of
         Inl e \<Rightarrow> False
       | Inr fd \<Rightarrow> map_of fd n = None))"
proof (intro conjI impI)
  assume "el_name x \<noteq> [] \<and> el_name x \<noteq> ''__proto__'' \<and> el_type x = ''checkbox''"
  then show "map_of (fst (collect_input x acc)) (el_name x) = Some (JBool (checked x))"
    by (simp add: collect_input_lookup writes_value_def written_value_def)
next
  assume "el_name x \<noteq> [] \<and> el_name x \<noteq> ''__proto__'' \<and> el_type x = ''radio'' \<and> checked x"
  then show "map_of (fst (collect_input x acc)) (el_name x) = Some (JStr (el_value x))"
    by (simp add: collect_input_lookup writes_value_def written_value_def)
next
  assume "el_type x = ''radio'' \<and> \<not> checked x"
  then show "fst (collect_input x acc) = fst acc"
    by (cases acc) (simp add: collect_input_def Let_def)
next
  assume h: "\<not> query_shadowed c w \<and> n \<notin> set reserved_keys
       \<and> last_writer n (enumerated c w) = Some y \<and> el_type y = ''checkbox''"
  with payload_formData_lookup [of c w n]
  show "case payload_formData c w of
         Inl e \<Rightarrow> False
       | Inr fd \<Rightarrow> map_of fd n = Some (JBool (checked y))"
    by (auto simp: written_value_def)
next
  assume h: "\<not> query_shadowed c w \<and> n \<notin> set reserved_keys
       \<and> last_writer n (enumerated c w) = Some y \<and> el_type y = ''radio''"
  with last_writer_SomeD [of n "enumerated c w" y] have "checked y"
    by (auto simp: writes_value_def)
  with h payload_formData_lookup [of c w n]
  show "case payload_formData c w of
         Inl e \<Rightarrow> False
       | Inr fd \<Rightarrow> checked y \<and> map_of fd n = Some (JStr (el_value y))"
    by (auto simp: written_value_def)
next
  assume h: "\<not> query_shadowed c w \<and> n \<notin> set reserved_keys
       \<and> (\<forall>z\<in>set (enumerated c w). el_name z = n \<longrightarrow> el_type z = ''radio'' \<and> \<not> checked z)"
  then have "\<not> (\<exists>z\<in>set (enumerated c w). el_name z = n \<and> writes_value z)"
    by (auto simp: writes_value_def)
  with h payload_formData_keys [of c w n]
  show "case payload_formData c w of
         Inl e \<Rightarrow> False
       | Inr fd \<Rightarrow> map_of fd n = None"
    by (auto split: sum.splits)
qed

theorem checkbox_radio_serialization_witness:
  "map_of (fst (collect_input (heap example_ready 2) ([], [], []))) ''subscribe'' = Some (JBool True)
   \<and> map_of (fst (collect_input (heap example_chosen 4) ([], [], []))) ''plan'' = Some (JStr ''pro'')
   \<and> fst (collect_input (heap example_ready 3) ([(''email'', JStr ''x'')], [], [])) = [(''email'', JStr ''x'')]
   \<and> (case payload_formData 0 example_ready of
         Inl e \<Rightarrow> False
       | Inr fd \<Rightarrow> map_of fd ''subscribe'' = Some (JBool True))
   \<and> (case payload_formData 0 example_chosen of
         Inl e \<Rightarrow> False
       | Inr fd \<Rightarrow> map_of fd ''plan'' = Some (JStr ''pro''))
   \<and> (case payload_formData 0 example_ready of
         Inl e \<Rightarrow> False
       | Inr fd \<Rightarrow> map_of fd ''plan'' = None)"
proof -
  note a = checkbox_radio_serialization
    [where x = "heap example_ready 2" and acc = "([], [], [])" and n = "''subscribe''"
       and c = 0 and w = example_ready and y = "heap example_ready 2"]
  note b = checkbox_radio_serialization
    [where x = "heap example_chosen 4" and acc = "([], [], [])" and n = "''plan''"
       and c = 0 and w = example_chosen and y = "heap example_chosen 4"]
  note c = checkbox_radio_serialization
    [where x = "heap example_ready 3" and acc = "([(''email'', JStr ''x'')], [], [])"
       and n = "''plan''" and c = 0 and w = example_ready and y = "heap example_ready 3"]
  from a example_controls(1) example_subscribe
  have 1: "map_of (fst (collect_input (heap example_ready 2) ([], [], []))) (el_name (heap example_ready 2)) =
             Some (JBool (checked (heap example_ready 2)))"
    and 4: "case payload_formData 0 example_ready of
              Inl e \<Rightarrow> False
            | Inr fd \<Rightarrow> map_of fd ''subscribe'' = Some (JBool (checked (heap example_ready 2)))"
    by blast+
  from b example_controls(5) example_plan_chosen
  have 2: "map_of (fst (collect_input (heap example_chosen 4) ([], [], []))) (el_name (heap example_chosen 4)) =
             Some (JStr (el_value (heap example_chosen 4)))"
    and 5: "case payload_formData 0 example_chosen of
              Inl e \<Rightarrow> False
            | Inr fd \<Rightarrow> checked (heap example_chosen 4)
                \<and> map_of fd ''plan'' = Some (JStr (el_value (heap example_chosen 4)))"
    by blast+
  from c example_controls(4) example_plan_open
  have 3: "fst (collect_input (heap example_ready 3) ([(''email'', JStr ''x'')], [], [])) =
             fst (([(''email'', JStr ''x'')], [], []) :: jsobj \<times> jsobj \<times> jsobj)"
    and 6: "case payload_formData 0 example_ready of
              Inl e \<Rightarrow> False
            | Inr fd \<Rightarrow> map_of fd ''plan'' = None"
    by blast+
  from 1 2 3 4 5 6 show ?thesis
    by (simp add: example_controls split: sum.splits)
qed

text \<open>
  The claim as stated fails on a form with a checkbox group: the first checkbox is
  checked, yet its name maps to false, the state of the second. A checked checkbox
  named \<open>metadata\<close> does not map to true, and one named \<open>__proto__\<close> leaves no entry.
  And on the example page with the second plan chosen, the unchecked first radio's
  name is present in the payload.
\<close>

theorem checkbox_radio_counterexample:
  "el_type (heap example_survey 1) = ''checkbox''
   \<and> el_name (heap example_survey 1) = ''interests''
   \<and> checked (heap example_survey 1)
   \<and> el_type (heap example_survey 3) = ''checkbox''
   \<and> el_name (heap example_survey 3) = ''metadata''
   \<and> checked (heap example_survey 3)
   \<and> el_type (heap example_survey 4) = ''checkbox''
   \<and> el_name (heap example_survey 4) = ''__proto__''
   \<and> checked (heap example_survey 4)
   \<and> (case payload_formData 0 example_survey of
         Inl e \<Rightarrow> False
       | Inr fd \<Rightarrow>
           map_of fd ''interests'' = Some (JBool False)
           \<and> map_of fd ''metadata'' \<noteq> Some (JBool True)
           \<and> map_of fd ''__proto__'' = None)
   \<and> el_type (heap example_chosen 3) = ''radio''
   \<and> el_name (heap example_chosen 3) = ''plan''
   \<and> \<not> checked (heap example_chosen 3)
   \<and> (case payload_formData 0 example_chosen of
         Inl e \<Rightarrow> False
       | Inr fd \<Rightarrow> map_of fd ''plan'' = Some (JStr ''pro''))"
  by code_simp

section \<open>Which controls the collector skips\<close>

text \<open>
  Claim C7, as the code has it. The collector skips a control (writes nothing for it,
  neither value nor annotation) when its name is empty or its type is \<open>submit\<close>; no
  other type is skipped, so a named \<open>input\<close> of type \<open>button\<close> is collected. A control
  named \<open>__proto__\<close> stores nothing either. Every other control writes a value entry
  under its name, except an unchecked radio, which writes none. Collection raises a
  TypeError when a control of the form is named \<open>querySelectorAll\<close> or
  \<open>querySelector\<close>; otherwise a name that is none of the keys the handler assigns
  itself is a key of the payload's form data exactly when some enumerated control of
  that name writes a value.
\<close>

theorem collector_skips:
  "(el_name x = [] \<or> el_type x = ''submit'' \<longrightarrow> collect_input x acc = acc)
   \<and> (el_name x = ''__proto__'' \<longrightarrow> collect_input x acc = acc)
   \<and> (writes_value x \<longrightarrow>
        map_of (fst (collect_input x acc)) (el_name x) = Some (written_value x))
   \<and> (el_type x = ''radio'' \<and> \<not> checked x \<longrightarrow> fst (collect_input x acc) = fst acc)
   \<and> (query_shadowed c w \<longrightarrow> collectFormData c w = Inl TypeError)
   \<and> (\<not> query_shadowed c w \<and> n \<notin> set reserved_keys \<longrightarrow>
        (case payload_formData c w of
           Inl e \<Rightarrow> False
         | Inr fd \<Rightarrow>
             (map_of fd n \<noteq> None) =
             (\<exists>y\<in>set (enumerated c w). el_name y = n \<and> writes_value y)))"
proof (intro conjI impI)
  assume "el_name x = [] \<or> el_type x = ''submit''"
  then show "collect_input x acc = acc"
    by (cases acc) (auto simp: collect_input_def)
next
  assume "el_name x = ''__proto__''"
  then show "collect_input x acc = acc"
    by (rule collect_input_proto)
next
  assume "writes_value x"
  then show "map_of (fst (collect_input x acc)) (el_name x) = Some (written_value x)"
    by (simp add: collect_input_lookup)
next
  assume "el_type x = ''radio'' \<and> \<not> checked x"
  then show "fst (collect_input x acc) = fst acc"
    by (cases acc) (simp add: collect_input_def Let_def)
next
  assume "query_shadowed c w"
  then show "collectFormData c w = Inl TypeError"
    by (rule collectFormData_throws)
next
  assume "\<not> query_shadowed c w \<and> n \<notin> set reserved_keys"
  then show "case payload_formData c w of
           Inl e \<Rightarrow> False
         | Inr fd \<Rightarrow>
             (map_of fd n \<noteq> None) =
             (\<exists>y\<in>set (enumerated c w). el_name y = n \<and> writes_value y)"
    using payload_formData_keys [of c w n] by simp
qed

theorem collector_skips_witness:
  "collect_input (heap example_ready 6) ([(''email'', JStr ''x'')], [], []) = ([(''email'', JStr ''x'')], [], [])
   \<and> collect_input (heap example_survey 4) ([(''email'', JStr ''x'')], [], []) = ([(''email'', JStr ''x'')], [], [])
   \<and> map_of (fst (collect_input (heap example_ready 5) ([], [], []))) ''helper'' = Some (JStr ''Go'')
   \<and> fst (collect_input (heap example_ready 3) ([], [], [])) = []
   \<and> collectFormData 0 example_shadowed = Inl TypeError
   \<and> (case payload_formData 0 example_ready of
         Inl e \<Rightarrow> False
       | Inr fd \<Rightarrow> map_of fd ''helper'' \<noteq> None)"
proof -
  note a = collector_skips
    [where x = "heap example_ready 6" and acc = "([(''email'', JStr ''x'')], [], [])"
       and n = "''helper''" and c = 0 and w = example_shadowed]
  note p = collector_skips
    [where x = "heap example_survey 4" and acc = "([(''email'', JStr ''x'')], [], [])"
       and n = "''helper''" and c = 0 and w = example_ready]
  note b = collector_skips
    [where x = "heap example_ready 5" and acc = "([], [], [])"
       and n = "''helper''" and c = 0 and w = example_ready]
  note c = collector_skips
    [where x = "heap example_ready 3" and acc = "([], [], [])"
       and n = "''helper''" and c = 0 and w = example_ready]
  from a example_helper(4) example_helper(8)
  have 1: "collect_input (heap example_ready 6) ([(''email'', JStr ''x'')], [], []) =
             ([(''email'', JStr ''x'')], [], [])"
    and 5: "collectFormData 0 example_shadowed = Inl TypeError"
    by blast+
  from p example_helper(7)
  have 7: "collect_input (heap example_survey 4) ([(''email'', JStr ''x'')], [], []) =
             ([(''email'', JStr ''x'')], [], [])"
    by blast
  from b example_helper(1)
  have 2: "map_of (fst (collect_input (heap example_ready 5) ([], [], []))) (el_name (heap example_ready 5)) =
             Some (written_value (heap example_ready 5))"
    by blast
  from b example_helper(5)
  have "case payload_formData 0 example_ready of
           Inl e \<Rightarrow> False
         | Inr fd \<Rightarrow>
             (map_of fd ''helper'' \<noteq> None) =
             (\<exists>y\<in>set (enumerated 0 example_ready). el_name y = ''helper'' \<and> writes_value y)"
    by blast
  with example_helper(6)
  have 4: "case payload_formData 0 example_ready of
         Inl e \<Rightarrow> False
       | Inr fd \<Rightarrow> map_of fd ''helper'' \<noteq> None"
    by (simp split: sum.splits)
  from c example_controls(4)
  have 3: "fst (collect_input (heap example_ready 3) ([], [], [])) = fst (([], [], []) :: jsobj \<times> jsobj \<times> jsobj)"
    by blast
  from 1 2 3 4 5 7 show ?thesis
    by (simp add: example_helper)
qed

text \<open>
  The claim as stated fails on the first example form: its named \<open>input\<close> of type
  \<open>button\<close> is not skipped but contributes its value, and its two named radios, which
  are neither buttons nor submit controls, contribute no value entry; and on the
  survey form the named checkbox \<open>__proto__\<close> contributes none.
\<close>

theorem collector_skips_counterexample:
  "5 \<in> set (querySelectorAll example_ready 0 controlSelector)
   \<and> el_type (heap example_ready 5) = ''button''
   \<and> el_name (heap example_ready 5) = ''helper''
   \<and> 3 \<in> set (querySelectorAll example_ready 0 controlSelector)
   \<and> el_type (heap example_ready 3) = ''radio''
   \<and> el_name (heap example_ready 3) = ''plan''
   \<and> (case payload_formData 0 example_ready of
         Inl e \<Rightarrow> False
       | Inr fd \<Rightarrow>
           map_of fd ''helper'' = Some (JStr ''Go'') \<and> map_of fd ''plan'' = None)
   \<and> 4 \<in> set (querySelectorAll example_survey 0 controlSelector)
   \<and> el_type (heap example_survey 4) = ''checkbox''
   \<and> el_name (heap example_survey 4) = ''__proto__''
   \<and> (case payload_formData 0 example_survey of
         Inl e \<Rightarrow> False
       | Inr fd \<Rightarrow> map_of fd ''__proto__'' = None)"
  by code_simp

end
